theory Spec2Isabelle
  imports Complex_Main
begin

section \<open>The repository of version.py as a state\<close>

text \<open>
  The class \<open>Repository\<close> of \<^verbatim>\<open>version.py\<close> keeps everything it knows in the directory
  \<^verbatim>\<open>.gitclone\<close>: the file \<^verbatim>\<open>HEAD\<close>, one file per branch under \<^verbatim>\<open>refs/heads\<close>,
  the file \<^verbatim>\<open>index\<close> (a JSON list of \<^verbatim>\<open>{'path', 'hash'}\<close> dictionaries), the file
  \<^verbatim>\<open>ignore\<close> and one file per object under \<^verbatim>\<open>objects\<close>. Its only attribute that
  changes is \<open>current_branch\<close>. The directory is a record of file contents; a file
  that may be absent is an option, a directory of files is a map from file names.

  Scope of the model.
  \<^item> Text is a list of characters with code points below 256; the hash parameter
    stands for \<open>hashlib.sha256(...).hexdigest()\<close> after the encoding the source applies.
  \<^item> Branch names and staged paths are single file names under their directory:
    \<open>os.path.join\<close> is a map lookup or update.
  \<^item> An object file holds either the bytes \<open>shutil.copy\<close> put there (\<open>Blob\<close>) or the
    JSON text \<open>json.dump\<close> wrote for a commit dictionary (\<open>CommitObj\<close>);
    \<open>json.load\<close> of a \<open>Blob\<close> raises. A working-tree file whose bytes happen to be
    the JSON text of a commit is outside the model.
  \<^item> The hash, \<open>fnmatch.fnmatch\<close> and \<open>os.path.getctime\<close> are parameters of the
    operations that call them; the working tree is a read-only map from path to
    content, and \<open>os.path.relpath\<close> of a staged path is the path as given.
  \<^item> \<open>print\<close> appends to the output an operation returns; an uncaught Python
    exception is \<open>Inl\<close> of the result. Every exception of the modelled operations
    is raised before their first write, so an \<open>Inl\<close> leaves the directory as it was.
\<close>

type_synonym digest = string

record index_entry =
  path :: string
  hash :: digest

record commit_data =
  message :: string
  timestamp :: real
  parent :: "digest option"
  files :: "index_entry list"

datatype object = Blob string | CommitObj commit_data

record gitclone =
  HEAD :: "string option"
  heads :: "string \<rightharpoonup> string"
  index :: "index_entry list option"
  ignore :: "string list option"
  objects :: "digest \<rightharpoonup> object"

record Repository =
  repo_dir :: gitclone
  current_branch :: string

datatype error = FileNotFoundError | AttributeError | JSONDecodeError

datatype printed =
    ErrorDoesNotExist string
  | SkippingIgnored string
  | AddedToStagingArea nat
  | NoChangesToCommit
  | Committed nat string
  | LogCommit digest string real "string list"
  | CreatedBranch string
  | BranchDoesNotExist string
  | SwitchedToBranch string
  | NoCommits
  | DiffBetween string string
  | Added string
  | Removed string
  | Modified string

type_synonym result = "error + printed list \<times> Repository"

subsection \<open>Python's string and truth primitives\<close>

text \<open>\<open>str.isspace\<close> on the code points below 256: tab to carriage return, the four
  separators, the space, next line and no-break space.\<close>

definition isspace :: "char \<Rightarrow> bool" where
  "isspace c =
     (let n = (of_char c :: nat)
      in (9 \<le> n \<and> n \<le> 13) \<or> (28 \<le> n \<and> n \<le> 32) \<or> n = 133 \<or> n = 160)"

definition strip :: "string \<Rightarrow> string" where
  "strip s = rev (dropWhile isspace (rev (dropWhile isspace s)))"

text \<open>\<open>s.split(sep)\<close> for a one-character separator: never an empty list.\<close>

fun split :: "char \<Rightarrow> string \<Rightarrow> string list" where
  "split sep [] = [[]]"
| "split sep (c # cs) =
     (if c = sep then [] # split sep cs
      else (case split sep cs of
              [] \<Rightarrow> [[c]]
            | w # ws \<Rightarrow> (c # w) # ws))"

text \<open>The truth value of an \<open>Optional[str]\<close>: \<open>None\<close> and \<open>''\<close> are false.\<close>

fun truthy :: "string option \<Rightarrow> bool" where
  "truthy None = False"
| "truthy (Some s) = (s \<noteq> [])"

subsection \<open>Opening a repository\<close>

definition initialize_repo :: gitclone where
  "initialize_repo =
     \<lparr>HEAD = Some ''ref: refs/heads/main'',
      heads = [''main'' \<mapsto> ''''],
      index = Some [],
      ignore = Some [''.gitclone'' @ [CHR 0x0A]],
      objects = Map.empty\<rparr>"

definition get_current_branch :: "gitclone \<Rightarrow> error + string" where
  "get_current_branch d =
     (case HEAD d of
        None \<Rightarrow> Inl FileNotFoundError
      | Some s \<Rightarrow> Inr (strip (last (split CHR ''/'' s))))"

text \<open>\<open>Repository.__init__\<close>: the argument is the directory \<^verbatim>\<open>.gitclone\<close> as found,
  \<open>None\<close> when \<open>os.path.exists(self.repo_dir)\<close> is false.\<close>

definition Repository_init :: "gitclone option \<Rightarrow> error + Repository" where
  "Repository_init found =
     (let d = (case found of None \<Rightarrow> initialize_repo | Some d \<Rightarrow> d)
      in case get_current_branch d of
           Inl e \<Rightarrow> Inl e
         | Inr b \<Rightarrow> Inr \<lparr>repo_dir = d, current_branch = b\<rparr>)"

subsection \<open>add\<close>

definition should_ignore :: "(string \<Rightarrow> string \<Rightarrow> bool) \<Rightarrow> gitclone \<Rightarrow> string \<Rightarrow> bool" where
  "should_ignore fnmatch d relative_path =
     (let ignore_patterns =
            (case ignore d of
               None \<Rightarrow> []
             | Some ls \<Rightarrow> filter (\<lambda>l. l \<noteq> []) (map strip ls))
      in list_ex (fnmatch relative_path) ignore_patterns)"

text \<open>Lines 101 to 107: hash the content, copy it to \<^verbatim>\<open>objects/<hash>\<close>.\<close>

definition store_object :: "(string \<Rightarrow> digest) \<Rightarrow> string \<Rightarrow> gitclone \<Rightarrow> digest \<times> gitclone" where
  "store_object sha256 content d =
     (let file_hash = sha256 content
      in (file_hash, d\<lparr>objects := (objects d)(file_hash \<mapsto> Blob content)\<rparr>))"

fun add_loop ::
  "(string \<Rightarrow> digest) \<Rightarrow> (string \<Rightarrow> string \<Rightarrow> bool) \<Rightarrow> (string \<rightharpoonup> string) \<Rightarrow> string list \<Rightarrow>
   gitclone \<times> index_entry list \<times> printed list \<Rightarrow> gitclone \<times> index_entry list \<times> printed list" where
  "add_loop sha256 fnmatch wt [] s = s"
| "add_loop sha256 fnmatch wt (file # rest) (d, idx, out) =
     (case wt file of
        None \<Rightarrow> add_loop sha256 fnmatch wt rest (d, idx, out @ [ErrorDoesNotExist file])
      | Some content \<Rightarrow>
          if should_ignore fnmatch d file
          then add_loop sha256 fnmatch wt rest (d, idx, out @ [SkippingIgnored file])
          else (case store_object sha256 content d of
                  (file_hash, d') \<Rightarrow>
                    add_loop sha256 fnmatch wt rest
                      (d', filter (\<lambda>entry. path entry \<noteq> file) idx @ [\<lparr>path = file, hash = file_hash\<rparr>], out)))"

definition add ::
  "(string \<Rightarrow> digest) \<Rightarrow> (string \<Rightarrow> string \<Rightarrow> bool) \<Rightarrow> (string \<rightharpoonup> string) \<Rightarrow> string list \<Rightarrow>
   Repository \<Rightarrow> result" where
  "add sha256 fnmatch wt fs r =
     (case index (repo_dir r) of
        None \<Rightarrow> Inl FileNotFoundError
      | Some idx \<Rightarrow>
          (case add_loop sha256 fnmatch wt fs (repo_dir r, idx, []) of
             (d, idx', out) \<Rightarrow>
               Inr (out @ [AddedToStagingArea (length fs)],
                    r\<lparr>repo_dir := d\<lparr>index := Some idx'\<rparr>\<rparr>)))"

subsection \<open>commit\<close>

definition get_last_commit :: "Repository \<Rightarrow> string option" where
  "get_last_commit r =
     (case heads (repo_dir r) (current_branch r) of
        None \<Rightarrow> None
      | Some s \<Rightarrow> Some (strip s))"

text \<open>Line 145 reads \<open>os.path.getctime(commit_path) if os.path.exists(commit_path)
  else os.time()\<close>. The module \<open>os\<close> has no attribute \<open>time\<close>, so the second branch raises
  \<open>AttributeError\<close>; it is evaluated before \<open>self._get_last_commit()\<close> and before any
  write.\<close>

definition commit ::
  "(string \<Rightarrow> digest) \<Rightarrow> (digest \<Rightarrow> real) \<Rightarrow> string \<Rightarrow> Repository \<Rightarrow> result" where
  "commit sha256 getctime msg r =
     (case index (repo_dir r) of
        None \<Rightarrow> Inl FileNotFoundError
      | Some idx \<Rightarrow>
          if idx = [] then Inr ([NoChangesToCommit], r)
          else
            (let commit_hash = sha256 msg
             in if commit_hash \<notin> dom (objects (repo_dir r)) then Inl AttributeError
                else
                  (let data = \<lparr>message = msg,
                                timestamp = getctime commit_hash,
                                parent = get_last_commit r,
                                files = idx\<rparr>;
                       d = repo_dir r;
                       d1 = d\<lparr>objects := (objects d)(commit_hash \<mapsto> CommitObj data)\<rparr>;
                       d2 = d1\<lparr>heads := (heads d1)(current_branch r \<mapsto> commit_hash)\<rparr>;
                       d3 = d2\<lparr>index := Some []\<rparr>
                   in Inr ([Committed (length idx) msg], r\<lparr>repo_dir := d3\<rparr>))))"

subsection \<open>log\<close>

text \<open>The \<open>while\<close> loop of \<open>log\<close> may run forever, so the walk is a partial function whose
  value \<open>None\<close> means that it does not return. \<open>FileNotFoundError\<close> is caught and ends
  the loop; no other exception is caught.\<close>

partial_function (option) log_walk ::
  "(digest \<rightharpoonup> object) \<Rightarrow> string option \<Rightarrow> printed list \<Rightarrow> (error + printed list) option" where
  "log_walk objs current_commit out =
     (if truthy current_commit
      then (case objs (the current_commit) of
              None \<Rightarrow> Some (Inr out)
            | Some (Blob b) \<Rightarrow> Some (Inl JSONDecodeError)
            | Some (CommitObj data) \<Rightarrow>
                log_walk objs (parent data)
                  (out @ [LogCommit (the current_commit) (message data) (timestamp data)
                            (map path (files data))]))
      else Some (Inr out))"

declare log_walk.simps [code]

definition log :: "Repository \<Rightarrow> (error + printed list) option" where
  "log r = log_walk (objects (repo_dir r)) (get_last_commit r) []"

subsection \<open>branch and checkout\<close>


definition checkout :: "string \<Rightarrow> Repository \<Rightarrow> result" where
  "checkout branch_name r =
     (if branch_name \<notin> dom (heads (repo_dir r))
      then Inr ([BranchDoesNotExist branch_name], r)
      else Inr ([SwitchedToBranch branch_name],
                r\<lparr>repo_dir := (repo_dir r)\<lparr>HEAD := Some (''ref: refs/heads/'' @ branch_name)\<rparr>,
                  current_branch := branch_name\<rparr>))"

subsection \<open>diff\<close>

definition get_branch_last_commit :: "gitclone \<Rightarrow> string \<Rightarrow> string option" where
  "get_branch_last_commit d branch_name =
     (case heads d branch_name of
        None \<Rightarrow> None
      | Some s \<Rightarrow> Some (strip s))"

definition load_commit :: "gitclone \<Rightarrow> digest \<Rightarrow> error + commit_data" where
  "load_commit d c =
     (case objects d c of
        None \<Rightarrow> Inl FileNotFoundError
      | Some (Blob b) \<Rightarrow> Inl JSONDecodeError
      | Some (CommitObj data) \<Rightarrow> Inr data)"

text \<open>The dictionary comprehension \<open>{file['path']: file['hash'] for file in ...}\<close>: a later
  entry of the same path replaces an earlier one.\<close>

definition files_dict :: "index_entry list \<Rightarrow> (string \<rightharpoonup> digest)" where
  "files_dict fs = foldl (\<lambda>m file. m(path file \<mapsto> hash file)) Map.empty fs"

definition classify :: "(string \<rightharpoonup> digest) \<Rightarrow> (string \<rightharpoonup> digest) \<Rightarrow> string \<Rightarrow> printed option" where
  "classify branch1_files branch2_files p =
     (if branch1_files p = None then Some (Added p)
      else if branch2_files p = None then Some (Removed p)
      else if branch1_files p \<noteq> branch2_files p then Some (Modified p)
      else None)"

text \<open>Python iterates over \<open>set(keys1 + keys2)\<close> in an order it does not specify; the model
  lists the paths in the order of their first occurrence, and the theorems below speak
  of membership only.\<close>

definition diff_lines :: "index_entry list \<Rightarrow> index_entry list \<Rightarrow> printed list" where
  "diff_lines fs1 fs2 =
     List.map_filter (classify (files_dict fs1) (files_dict fs2))
       (remdups (map path fs1 @ map path fs2))"

definition diff :: "string \<Rightarrow> string \<Rightarrow> Repository \<Rightarrow> result" where
  "diff branch1 branch2 r =
     (let d = repo_dir r;
          branch1_commit = get_branch_last_commit d branch1;
          branch2_commit = get_branch_last_commit d branch2
      in if \<not> truthy branch1_commit \<or> \<not> truthy branch2_commit then Inr ([NoCommits], r)
         else (case load_commit d (the branch1_commit) of
                 Inl e \<Rightarrow> Inl e
               | Inr branch1_data \<Rightarrow>
                   (case load_commit d (the branch2_commit) of
                      Inl e \<Rightarrow> Inl e
                    | Inr branch2_data \<Rightarrow>
                        Inr (DiffBetween branch1 branch2 #
                               diff_lines (files branch1_data) (files branch2_data), r))))"

subsection \<open>Running operations one after the other\<close>

text \<open>A script calls one method after the other; an exception ends it.\<close>

definition then_call :: "result \<Rightarrow> (Repository \<Rightarrow> result) \<Rightarrow> result" where
  "then_call x f =
     (case x of
        Inl e \<Rightarrow> Inl e
      | Inr (out, r) \<Rightarrow>
          (case f r of
             Inl e \<Rightarrow> Inl e
           | Inr (out', r') \<Rightarrow> Inr (out @ out', r')))"

definition open_repo :: "gitclone option \<Rightarrow> result" where
  "open_repo found =
     (case Repository_init found of
        Inl e \<Rightarrow> Inl e
      | Inr r \<Rightarrow> Inr ([], r))"

subsection \<open>Concrete scripts\<close>

text \<open>The closed facts below run the operations on a working tree of two files. The
  hash is instantiated with an injective stand-in (no property below depends on the
  digits SHA-256 produces), pattern matching with equality (what \<open>fnmatch\<close> does on a
  pattern without wildcards) and the creation time with a constant.\<close>

definition tag_digest :: "string \<Rightarrow> digest" where
  "tag_digest content = ''sha256:'' @ content"

definition literal_match :: "string \<Rightarrow> string \<Rightarrow> bool" where
  "literal_match name pat = (name = pat)"

definition epoch :: "digest \<Rightarrow> real" where
  "epoch commit_hash = 0"

definition work_tree :: "string \<rightharpoonup> string" where
  "work_tree = [''notes.txt'' \<mapsto> ''first'', ''todo.txt'' \<mapsto> ''x'']"

text \<open>\<open>Repository(p); add(['notes.txt']); commit('first')\<close> in a fresh directory. The file
  \<^verbatim>\<open>notes.txt\<close> holds the text of the commit message, so \<open>add\<close> has created the object
  file that line 145 looks for.\<close>

definition first_commit :: result where
  "first_commit =
     then_call
       (then_call (open_repo None) (add tag_digest literal_match work_tree [''notes.txt'']))
       (commit tag_digest epoch ''first'')"

text \<open>... followed by \<open>add(['todo.txt']); commit('first')\<close>.\<close>

definition second_commit :: result where
  "second_commit =
     then_call
       (then_call first_commit (add tag_digest literal_match work_tree [''todo.txt'']))
       (commit tag_digest epoch ''first'')"


text \<open>A directory whose only commit names a parent that is not in \<^verbatim>\<open>objects\<close>.\<close>

definition dangling :: Repository where
  "dangling =
     \<lparr>repo_dir =
        \<lparr>HEAD = Some ''ref: refs/heads/main'',
         heads = [''main'' \<mapsto> ''c1''],
         index = Some [],
         ignore = Some [''.gitclone'' @ [CHR 0x0A]],
         objects =
           [''c1'' \<mapsto> CommitObj \<lparr>message = ''tip'', timestamp = 0, parent = Some ''c0'',
                                  files = [\<lparr>path = ''a.txt'', hash = ''b1''\<rparr>]\<rparr>]\<rparr>,
      current_branch = ''main''\<rparr>"

text \<open>The states these scripts end in, written out.\<close>

definition fresh :: Repository where
  "fresh = \<lparr>repo_dir = initialize_repo, current_branch = ''main''\<rparr>"

definition after_first_commit :: Repository where
  "after_first_commit =
     \<lparr>repo_dir =
        \<lparr>HEAD = Some ''ref: refs/heads/main'',
         heads = [''main'' \<mapsto> ''sha256:first''],
         index = Some [],
         ignore = Some [''.gitclone'' @ [CHR 0x0A]],
         objects =
           [''sha256:first'' \<mapsto>
              CommitObj \<lparr>message = ''first'', timestamp = 0, parent = Some [],
                         files = [\<lparr>path = ''notes.txt'', hash = ''sha256:first''\<rparr>]\<rparr>]\<rparr>,
      current_branch = ''main''\<rparr>"

definition after_second_commit :: Repository where
  "after_second_commit =
     \<lparr>repo_dir =
        \<lparr>HEAD = Some ''ref: refs/heads/main'',
         heads = [''main'' \<mapsto> ''sha256:first''],
         index = Some [],
         ignore = Some [''.gitclone'' @ [CHR 0x0A]],
         objects =
           [''sha256:x'' \<mapsto> Blob ''x'',
            ''sha256:first'' \<mapsto>
              CommitObj \<lparr>message = ''first'', timestamp = 0, parent = Some ''sha256:first'',
                         files = [\<lparr>path = ''todo.txt'', hash = ''sha256:x''\<rparr>]\<rparr>]\<rparr>,
      current_branch = ''main''\<rparr>"


text \<open>A directory that exists, with the empty branch \<open>dev\<close> checked out and one file
  staged.\<close>

definition on_dev :: gitclone where
  "on_dev =
     \<lparr>HEAD = Some ''ref: refs/heads/dev'',
      heads = [''main'' \<mapsto> ''c1'', ''dev'' \<mapsto> []],
      index = Some [\<lparr>path = ''a.txt'', hash = ''sha256:hello''\<rparr>],
      ignore = None,
      objects = [''sha256:hello'' \<mapsto> Blob ''hello'']\<rparr>"

text \<open>A directory with two branches whose tips are commits over different snapshots.\<close>

definition snapshot1 :: "index_entry list" where
  "snapshot1 =
     [\<lparr>path = ''a.txt'', hash = ''h1''\<rparr>, \<lparr>path = ''b.txt'', hash = ''h2''\<rparr>,
      \<lparr>path = ''c.txt'', hash = ''h3''\<rparr>]"

definition snapshot2 :: "index_entry list" where
  "snapshot2 =
     [\<lparr>path = ''b.txt'', hash = ''h2''\<rparr>, \<lparr>path = ''c.txt'', hash = ''h9''\<rparr>,
      \<lparr>path = ''d.txt'', hash = ''h4''\<rparr>]"

definition two_branches :: Repository where
  "two_branches =
     \<lparr>repo_dir =
        \<lparr>HEAD = Some ''ref: refs/heads/main'',
         heads = [''main'' \<mapsto> ''c1'', ''dev'' \<mapsto> ''c2''],
         index = Some [],
         ignore = None,
         objects =
           [''c1'' \<mapsto> CommitObj \<lparr>message = ''one'', timestamp = 0, parent = Some [],
                                  files = snapshot1\<rparr>,
            ''c2'' \<mapsto> CommitObj \<lparr>message = ''two'', timestamp = 0, parent = Some ''c1'',
                                  files = snapshot2\<rparr>]\<rparr>,
      current_branch = ''main''\<rparr>"

section \<open>Properties\<close>

subsection \<open>Auxiliary facts\<close>

lemma strip_Nil: "strip [] = []"
  by (simp add: strip_def)

lemma strip_tag: "strip ''sha256:first'' = ''sha256:first''"
  by (simp add: strip_def isspace_def)

lemma pattern: "strip (''.gitclone'' @ [CHR 0x0A]) = ''.gitclone''"
  by (simp add: strip_def isspace_def)

lemma strip_main: "strip ''main'' = ''main''"
  by code_simp

lemma open_repo_None: "open_repo None = Inr ([], fresh)"
  by (simp add: open_repo_def Repository_init_def get_current_branch_def initialize_repo_def
      fresh_def strip_main)

lemma not_ignored: "ignore d = Some [''.gitclone'' @ [CHR 0x0A]] \<Longrightarrow> p \<noteq> ''.gitclone'' \<Longrightarrow> \<not> should_ignore literal_match d p"
  using pattern by (simp add: should_ignore_def literal_match_def)

lemma first_commit_eq:
  "first_commit = Inr ([AddedToStagingArea 1, Committed 1 ''first''], after_first_commit)"
  by (simp add: first_commit_def open_repo_None then_call_def add_def fresh_def initialize_repo_def
      work_tree_def not_ignored store_object_def Let_def tag_digest_def commit_def get_last_commit_def
      strip_Nil epoch_def after_first_commit_def)

lemma second_commit_eq:
  "second_commit =
     Inr ([AddedToStagingArea 1, Committed 1 ''first'', AddedToStagingArea 1, Committed 1 ''first''],
          after_second_commit)"
  by (simp add: second_commit_def first_commit_eq then_call_def add_def after_first_commit_def
      work_tree_def not_ignored store_object_def Let_def tag_digest_def commit_def get_last_commit_def
      strip_tag epoch_def after_second_commit_def fun_upd_twist)


subsection \<open>What add and commit do to the object store\<close>

text \<open>Staging one file that exists and is not ignored stores its blob and replaces its
  index entry. A commit whose object path does not exist yet reaches \<open>os.time()\<close> and
  raises.\<close>

lemma commit_without_object_raises:
  "index (repo_dir r) = Some idx \<Longrightarrow> idx \<noteq> [] \<Longrightarrow> hexdigest msg \<notin> dom (objects (repo_dir r)) \<Longrightarrow>
     commit hexdigest getctime msg r = Inl AttributeError"
  by (simp add: commit_def Let_def)

lemma add_single_stores_blob:
  assumes "index (repo_dir r) = Some idx" and "wt file = Some content"
    and "\<not> should_ignore fnmatch (repo_dir r) file"
  shows "add hexdigest fnmatch wt [file] r =
           Inr ([AddedToStagingArea 1],
                r\<lparr>repo_dir := (repo_dir r)
                   \<lparr>objects := (objects (repo_dir r))(hexdigest content \<mapsto> Blob content),
                    index := Some (filter (\<lambda>entry. path entry \<noteq> file) idx @
                                     [\<lparr>path = file, hash = hexdigest content\<rparr>])\<rparr>\<rparr>)"
  using assms by (simp add: add_def store_object_def Let_def)

subsection \<open>Steps of the history walk\<close>

lemma log_walk_falsy: "\<not> truthy cur \<Longrightarrow> log_walk objs cur out = Some (Inr out)"
  by (subst log_walk.simps) simp

lemma log_walk_missing: "c \<noteq> [] \<Longrightarrow> objs c = None \<Longrightarrow> log_walk objs (Some c) out = Some (Inr out)"
  by (subst log_walk.simps) simp

lemma log_walk_commit:
  "c \<noteq> [] \<Longrightarrow> objs c = Some (CommitObj data) \<Longrightarrow>
     log_walk objs (Some c) out =
       log_walk objs (parent data)
         (out @ [LogCommit c (message data) (timestamp data) (map path (files data))])"
  by (subst log_walk.simps) simp

lemma log_walk_loop:
  assumes obj: "objs c = Some (CommitObj data)" and par: "parent data = Some c" and ne: "c \<noteq> []"
  shows "log_walk objs (Some c) out = None"
proof (cases "log_walk objs (Some c) out")
  case None
  then show ?thesis .
next
  case (Some y)
  have "objs = objs \<longrightarrow> Some c \<noteq> Some c"
  proof (rule log_walk.raw_induct [where P = "\<lambda>os cur acc res. os = objs \<longrightarrow> cur \<noteq> Some c", OF _ Some])
    fix walk os cur acc res
    assume IH: "\<And>os cur acc res. walk os cur acc = Some res \<Longrightarrow> os = objs \<longrightarrow> cur \<noteq> Some c"
      and step: "(if truthy cur
         then case os (the cur) of
                None \<Rightarrow> Some (Inr acc)
              | Some (Blob b) \<Rightarrow> Some (Inl JSONDecodeError)
              | Some (CommitObj data) \<Rightarrow>
                  walk os (parent data)
                    (acc @ [LogCommit (the cur) (message data) (timestamp data) (map path (files data))])
         else Some (Inr acc)) = Some res"
    show "os = objs \<longrightarrow> cur \<noteq> Some c"
    proof (intro impI notI)
      assume "os = objs" "cur = Some c"
      with step obj par ne
      have "walk objs (Some c) (acc @ [LogCommit c (message data) (timestamp data) (map path (files data))]) = Some res"
        by simp
      from IH [OF this] show False by simp
    qed
  qed
  then show ?thesis by simp
qed

subsection \<open>The lines of a diff\<close>

lemma files_dict_snoc: "files_dict (fs @ [e]) = (files_dict fs)(path e \<mapsto> hash e)"
  by (simp add: files_dict_def)

lemma files_dict_None: "(files_dict fs p = None) = (p \<notin> path ` set fs)"
proof (induction fs rule: rev_induct)
  case Nil
  then show ?case by (simp add: files_dict_def)
next
  case (snoc e fs)
  then show ?case by (auto simp: files_dict_snoc)
qed

lemma classify_Added: "(classify m1 m2 q = Some (Added p)) = (q = p \<and> m1 p = None)"
  by (auto simp: classify_def)

lemma classify_Removed: "(classify m1 m2 q = Some (Removed p)) = (q = p \<and> m1 p \<noteq> None \<and> m2 p = None)"
  by (auto simp: classify_def)

lemma classify_Modified:
  "(classify m1 m2 q = Some (Modified p)) = (q = p \<and> m1 p \<noteq> None \<and> m2 p \<noteq> None \<and> m1 p \<noteq> m2 p)"
  by (auto simp: classify_def)

lemma classify_kinds: "classify m1 m2 q = Some l \<Longrightarrow> l = Added q \<or> l = Removed q \<or> l = Modified q"
  by (auto simp: classify_def split: if_splits)

lemma set_map_filter: "set (List.map_filter f xs) = {y. \<exists>x \<in> set xs. f x = Some y}"
  by (induction xs) (auto split: option.splits)

lemma set_diff_lines:
  "set (diff_lines fs1 fs2) =
     {l. \<exists>q \<in> path ` set fs1 \<union> path ` set fs2. classify (files_dict fs1) (files_dict fs2) q = Some l}"
  by (auto simp: diff_lines_def set_map_filter)

lemma Added_in_diff_lines:
  "(Added p \<in> set (diff_lines fs1 fs2)) = (p \<notin> path ` set fs1 \<and> p \<in> path ` set fs2)"
  by (auto simp: set_diff_lines classify_Added files_dict_None)

lemma Removed_in_diff_lines:
  "(Removed p \<in> set (diff_lines fs1 fs2)) = (p \<in> path ` set fs1 \<and> p \<notin> path ` set fs2)"
  by (auto simp: set_diff_lines classify_Removed files_dict_None)

lemma Modified_in_diff_lines:
  "(Modified p \<in> set (diff_lines fs1 fs2)) =
     (p \<in> path ` set fs1 \<and> p \<in> path ` set fs2 \<and> files_dict fs1 p \<noteq> files_dict fs2 p)"
  by (auto simp: set_diff_lines classify_Modified files_dict_None)

lemma diff_lines_kinds:
  "l \<in> set (diff_lines fs1 fs2) \<Longrightarrow>
     \<exists>p \<in> path ` set fs1 \<union> path ` set fs2. l = Added p \<or> l = Removed p \<or> l = Modified p"
  by (auto simp: set_diff_lines dest!: classify_kinds)

lemma diff_loaded:
  assumes "get_branch_last_commit (repo_dir r) branch1 = Some c1" "c1 \<noteq> []"
    and "get_branch_last_commit (repo_dir r) branch2 = Some c2" "c2 \<noteq> []"
    and "objects (repo_dir r) c1 = Some (CommitObj A)"
    and "objects (repo_dir r) c2 = Some (CommitObj B)"
  shows "diff branch1 branch2 r = Inr (DiffBetween branch1 branch2 # diff_lines (files A) (files B), r)"
  using assms by (simp add: diff_def load_commit_def)



subsection \<open>The object store\<close>

text \<open>C6. Lines 101 to 107 of \<open>add\<close> are the put operation of the object store. Reading
  the store at the digest that \<open>store_object\<close> returns gives a blob with exactly the
  bytes stored; the digest is the hash of the content; and storing the same content
  again returns the same digest and the same store, so nothing is duplicated.\<close>

theorem store_object_read_back:
  "objects (snd (store_object sha256 b d)) (fst (store_object sha256 b d)) = Some (Blob b) \<and>
   fst (store_object sha256 b d) = sha256 b \<and>
   store_object sha256 b (snd (store_object sha256 b d)) = store_object sha256 b d"
  by (simp add: store_object_def Let_def)

theorem store_object_read_back_witness:
  "objects (snd (store_object tag_digest ''hello'' initialize_repo))
     (fst (store_object tag_digest ''hello'' initialize_repo)) = Some (Blob ''hello'') \<and>
   fst (store_object tag_digest ''hello'' initialize_repo) = ''sha256:hello'' \<and>
   store_object tag_digest ''hello'' (snd (store_object tag_digest ''hello'' initialize_repo)) =
     store_object tag_digest ''hello'' initialize_repo"
proof -
  have "tag_digest ''hello'' = ''sha256:hello''"
    by (simp add: tag_digest_def)
  with store_object_read_back [of tag_digest "''hello''" initialize_repo] show ?thesis
    by metis
qed

subsection \<open>diff\<close>

text \<open>C7. When both branch tips load as commits \<open>A\<close> and \<open>B\<close>, \<open>diff\<close> prints the header
  and the lines \<open>diff_lines\<close>, and for every path: it is reported \<open>Added\<close> exactly when
  it is in the snapshot of \<open>B\<close> only, \<open>Removed\<close> exactly when it is in the snapshot of
  \<open>A\<close> only, \<open>Modified\<close> exactly when it is in both with different digests; so a path in
  both with equal digests has no line. Every line is one of the three kinds, for a path
  of the union.\<close>

theorem diff_classifies_paths:
  assumes "get_branch_last_commit (repo_dir r) branch1 = Some c1" "c1 \<noteq> []"
    and "get_branch_last_commit (repo_dir r) branch2 = Some c2" "c2 \<noteq> []"
    and "objects (repo_dir r) c1 = Some (CommitObj A)"
    and "objects (repo_dir r) c2 = Some (CommitObj B)"
  shows "diff branch1 branch2 r = Inr (DiffBetween branch1 branch2 # diff_lines (files A) (files B), r) \<and>
    (\<forall>p. (Added p \<in> set (diff_lines (files A) (files B))) =
          (p \<notin> path ` set (files A) \<and> p \<in> path ` set (files B))) \<and>
    (\<forall>p. (Removed p \<in> set (diff_lines (files A) (files B))) =
          (p \<in> path ` set (files A) \<and> p \<notin> path ` set (files B))) \<and>
    (\<forall>p. (Modified p \<in> set (diff_lines (files A) (files B))) =
          (p \<in> path ` set (files A) \<and> p \<in> path ` set (files B) \<and>
           files_dict (files A) p \<noteq> files_dict (files B) p)) \<and>
    (\<forall>l \<in> set (diff_lines (files A) (files B)).
        \<exists>p \<in> path ` set (files A) \<union> path ` set (files B).
          l = Added p \<or> l = Removed p \<or> l = Modified p)"
proof (intro conjI allI ballI)
  show "diff branch1 branch2 r = Inr (DiffBetween branch1 branch2 # diff_lines (files A) (files B), r)"
    by (rule diff_loaded [OF assms])
qed (simp_all only: Added_in_diff_lines Removed_in_diff_lines Modified_in_diff_lines diff_lines_kinds)


theorem diff_classifies_paths_witness:
  "get_branch_last_commit (repo_dir two_branches) ''main'' = Some ''c1'' \<and>
   get_branch_last_commit (repo_dir two_branches) ''dev'' = Some ''c2'' \<and>
   diff ''main'' ''dev'' two_branches =
     Inr (DiffBetween ''main'' ''dev'' # diff_lines snapshot1 snapshot2, two_branches) \<and>
   Removed ''a.txt'' \<in> set (diff_lines snapshot1 snapshot2) \<and>
   Modified ''c.txt'' \<in> set (diff_lines snapshot1 snapshot2) \<and>
   Added ''d.txt'' \<in> set (diff_lines snapshot1 snapshot2) \<and>
   Added ''b.txt'' \<notin> set (diff_lines snapshot1 snapshot2) \<and>
   Removed ''b.txt'' \<notin> set (diff_lines snapshot1 snapshot2) \<and>
   Modified ''b.txt'' \<notin> set (diff_lines snapshot1 snapshot2)"
proof -
  have c1: "strip ''c1'' = ''c1''" and c2: "strip ''c2'' = ''c2''"
    by code_simp+
  have t1: "get_branch_last_commit (repo_dir two_branches) ''main'' = Some ''c1''"
    by (simp add: get_branch_last_commit_def two_branches_def c1)
  have t2: "get_branch_last_commit (repo_dir two_branches) ''dev'' = Some ''c2''"
    by (simp add: get_branch_last_commit_def two_branches_def c2)
  have o1: "objects (repo_dir two_branches) ''c1'' =
      Some (CommitObj \<lparr>message = ''one'', timestamp = 0, parent = Some [], files = snapshot1\<rparr>)"
    by (simp add: two_branches_def)
  have o2: "objects (repo_dir two_branches) ''c2'' =
      Some (CommitObj \<lparr>message = ''two'', timestamp = 0, parent = Some ''c1'', files = snapshot2\<rparr>)"
    by (simp add: two_branches_def)
  have d1: "files_dict snapshot1 ''b.txt'' = Some ''h2''" "files_dict snapshot1 ''c.txt'' = Some ''h3''"
    by (simp_all add: files_dict_def snapshot1_def)
  have d2: "files_dict snapshot2 ''b.txt'' = Some ''h2''" "files_dict snapshot2 ''c.txt'' = Some ''h9''"
    by (simp_all add: files_dict_def snapshot2_def)
  have p1: "path ` set snapshot1 = {''a.txt'', ''b.txt'', ''c.txt''}"
    by (simp add: snapshot1_def)
  have p2: "path ` set snapshot2 = {''b.txt'', ''c.txt'', ''d.txt''}"
    by (simp add: snapshot2_def)
  from diff_classifies_paths [OF t1 _ t2 _ o1 o2] t1 t2 show ?thesis
    by (simp add: d1 d2 p1 p2)
qed

subsection \<open>commit\<close>



subsection \<open>Opening an existing repository\<close>

text \<open>C10. When the directory \<^verbatim>\<open>.gitclone\<close> exists, the constructor writes nothing: the
  repository it returns holds the directory as found (HEAD, refs, index, ignore file
  and objects), and its current branch is the last \<open>/\<close>-separated part of HEAD,
  stripped. When HEAD is missing the constructor raises \<open>FileNotFoundError\<close>.\<close>

theorem Repository_init_existing:
  "Repository_init (Some d) =
     (case HEAD d of
        None \<Rightarrow> Inl FileNotFoundError
      | Some s \<Rightarrow> Inr \<lparr>repo_dir = d, current_branch = strip (last (split CHR ''/'' s))\<rparr>)"
  by (simp add: Repository_init_def get_current_branch_def split: option.split)

theorem Repository_init_existing_witness:
  "Repository_init (Some on_dev) = Inr \<lparr>repo_dir = on_dev, current_branch = ''dev''\<rparr>"
proof -
  have "strip (last (split CHR ''/'' ''ref: refs/heads/dev'')) = ''dev''"
    by code_simp
  moreover have "HEAD on_dev = Some ''ref: refs/heads/dev''"
    by (simp add: on_dev_def)
  ultimately show ?thesis
    using Repository_init_existing [of on_dev] by simp
qed

subsection \<open>The first commit of a branch\<close>

text \<open>C9. On a branch whose ref file exists and is empty, a commit that is created (the
  index holds entries and the object path of line 145 exists) records the empty string
  as its parent, not \<open>None\<close>; the branch then points at the commit, and \<open>log\<close> prints this
  one commit and returns, because the empty parent ends the \<open>while\<close> loop. The two
  conditions on the digest hold for every hexdigest: it is not empty and \<open>strip\<close>
  leaves it as it is.\<close>

theorem first_commit_parent_is_empty_string:
  assumes "heads (repo_dir r) (current_branch r) = Some ''''"
    and "index (repo_dir r) = Some idx" and "idx \<noteq> []"
    and "hexdigest msg \<in> dom (objects (repo_dir r))"
    and "hexdigest msg \<noteq> []" and "strip (hexdigest msg) = hexdigest msg"
  shows "case commit hexdigest getctime msg r of
           Inl e \<Rightarrow> False
         | Inr (out, r') \<Rightarrow>
             load_commit (repo_dir r') (hexdigest msg) =
               Inr \<lparr>message = msg, timestamp = getctime (hexdigest msg), parent = Some '''', files = idx\<rparr> \<and>
             get_last_commit r' = Some (hexdigest msg) \<and>
             log r' = Some (Inr [LogCommit (hexdigest msg) msg (getctime (hexdigest msg)) (map path idx)])"
proof -
  let ?data = "\<lparr>message = msg, timestamp = getctime (hexdigest msg), parent = Some '''', files = idx\<rparr>"
  let ?d = "repo_dir r"
  let ?r' = "r\<lparr>repo_dir := ?d\<lparr>objects := (objects ?d)(hexdigest msg \<mapsto> CommitObj ?data),
                              heads := (heads ?d)(current_branch r \<mapsto> hexdigest msg),
                              index := Some []\<rparr>\<rparr>"
  have last: "get_last_commit r = Some ''''"
    using assms(1) by (simp add: get_last_commit_def strip_Nil)
  have c: "commit hexdigest getctime msg r = Inr ([Committed (length idx) msg], ?r')"
    using assms(2,3,4) last by (simp add: commit_def Let_def)
  have obj: "objects (repo_dir ?r') (hexdigest msg) = Some (CommitObj ?data)"
    by simp
  have tip: "get_last_commit ?r' = Some (hexdigest msg)"
    using assms(6) by (simp add: get_last_commit_def)
  have "log_walk (objects (repo_dir ?r')) (Some (hexdigest msg)) [] =
          log_walk (objects (repo_dir ?r')) (parent ?data)
            ([] @ [LogCommit (hexdigest msg) (message ?data) (timestamp ?data) (map path (files ?data))])"
    using assms(5) obj
    by (rule log_walk_commit [where c = "hexdigest msg" and objs = "objects (repo_dir ?r')" and data = ?data])
  also have "\<dots> = Some (Inr [LogCommit (hexdigest msg) msg (getctime (hexdigest msg)) (map path idx)])"
    by (simp add: log_walk_falsy)
  finally have "log ?r' = Some (Inr [LogCommit (hexdigest msg) msg (getctime (hexdigest msg)) (map path idx)])"
    by (simp only: log_def tip)
  with c obj tip show ?thesis
    by (simp add: load_commit_def)
qed

theorem first_commit_parent_is_empty_string_witness:
  "heads on_dev ''dev'' = Some '''' \<and>
   index on_dev = Some [\<lparr>path = ''a.txt'', hash = ''sha256:hello''\<rparr>] \<and>
   tag_digest ''hello'' \<in> dom (objects on_dev) \<and>
   (case commit tag_digest epoch ''hello'' \<lparr>repo_dir = on_dev, current_branch = ''dev''\<rparr> of
      Inl e \<Rightarrow> False
    | Inr (out, r') \<Rightarrow>
        load_commit (repo_dir r') ''sha256:hello'' =
          Inr \<lparr>message = ''hello'', timestamp = 0, parent = Some '''',
               files = [\<lparr>path = ''a.txt'', hash = ''sha256:hello''\<rparr>]\<rparr> \<and>
        get_last_commit r' = Some ''sha256:hello'' \<and>
        log r' = Some (Inr [LogCommit ''sha256:hello'' ''hello'' 0 [''a.txt'']]))"
proof -
  let ?r = "\<lparr>repo_dir = on_dev, current_branch = ''dev''\<rparr>"
  have t: "tag_digest ''hello'' = ''sha256:hello''"
    by (simp add: tag_digest_def)
  have s: "strip (tag_digest ''hello'') = tag_digest ''hello''"
    unfolding t by code_simp
  have h1: "heads (repo_dir ?r) (current_branch ?r) = Some ''''"
    by (simp add: on_dev_def)
  have h2: "index (repo_dir ?r) = Some [\<lparr>path = ''a.txt'', hash = ''sha256:hello''\<rparr>]"
    by (simp add: on_dev_def)
  have h4: "tag_digest ''hello'' \<in> dom (objects (repo_dir ?r))"
    by (simp add: on_dev_def t)
  have h5: "tag_digest ''hello'' \<noteq> []"
    by (simp add: t)
  have h3: "[\<lparr>path = ''a.txt'', hash = ''sha256:hello''\<rparr>] \<noteq> []"
    by simp
  have "case commit tag_digest epoch ''hello'' ?r of
          Inl e \<Rightarrow> False
        | Inr (out, r') \<Rightarrow>
            load_commit (repo_dir r') (tag_digest ''hello'') =
              Inr \<lparr>message = ''hello'', timestamp = epoch (tag_digest ''hello''), parent = Some [],
                   files = [\<lparr>path = ''a.txt'', hash = ''sha256:hello''\<rparr>]\<rparr> \<and>
            get_last_commit r' = Some (tag_digest ''hello'') \<and>
            log r' = Some (Inr [LogCommit (tag_digest ''hello'') ''hello'' (epoch (tag_digest ''hello''))
                                  (map path [\<lparr>path = ''a.txt'', hash = ''sha256:hello''\<rparr>])])"
    using h1 h2 h3 h4 h5 s
    by (rule first_commit_parent_is_empty_string
          [where r = ?r and hexdigest = tag_digest and msg = "''hello''" and getctime = epoch])
  with h1 h2 h4 show ?thesis
    by (simp add: t epoch_def split: sum.splits prod.splits)
qed

subsection \<open>log over a broken history\<close>

text \<open>C4 (as amended). When the walk is at a commit \<open>c\<close> whose parent digest \<open>p\<close> has no
  object file, \<open>log\<close> prints \<open>c\<close> and returns normally with what it has printed so far:
  line 199 catches \<open>FileNotFoundError\<close> and leaves the loop. The accumulator \<open>out\<close>
  stands for the commits printed before \<open>c\<close>, so the statement covers every point of
  a walk.\<close>

theorem log_walk_stops_at_missing_parent:
  assumes "c \<noteq> []" and "objs c = Some (CommitObj data)"
    and "parent data = Some p" and "p \<noteq> []" and "objs p = None"
  shows "log_walk objs (Some c) out =
           Some (Inr (out @ [LogCommit c (message data) (timestamp data) (map path (files data))]))"
  using assms by (simp add: log_walk_commit log_walk_missing)

theorem log_walk_stops_at_missing_parent_witness:
  "objects (repo_dir dangling) ''c1'' =
     Some (CommitObj \<lparr>message = ''tip'', timestamp = 0, parent = Some ''c0'',
                       files = [\<lparr>path = ''a.txt'', hash = ''b1''\<rparr>]\<rparr>) \<and>
   objects (repo_dir dangling) ''c0'' = None \<and>
   log_walk (objects (repo_dir dangling)) (Some ''c1'') [NoCommits] =
     Some (Inr [NoCommits, LogCommit ''c1'' ''tip'' 0 [''a.txt'']])"
proof -
  let ?data = "\<lparr>message = ''tip'', timestamp = 0, parent = Some ''c0'',
                 files = [\<lparr>path = ''a.txt'', hash = ''b1''\<rparr>]\<rparr>"
  have o1: "objects (repo_dir dangling) ''c1'' = Some (CommitObj ?data)"
    by (simp add: dangling_def)
  have o0: "objects (repo_dir dangling) ''c0'' = None"
    by (simp add: dangling_def)
  have "log_walk (objects (repo_dir dangling)) (Some ''c1'') [NoCommits] =
          Some (Inr ([NoCommits] @ [LogCommit ''c1'' (message ?data) (timestamp ?data)
                                     (map path (files ?data))]))"
    by (rule log_walk_stops_at_missing_parent [where p = "''c0''"]) (simp_all add: o1 o0)
  with o1 o0 show ?thesis by simp
qed

text \<open>The claim as stated asks for a failure; on the directory \<open>dangling\<close> the parent
  \<open>c0\<close> of the tip is missing and \<open>log\<close> returns the one commit it visited.\<close>

theorem log_truncated_counterexample:
  "objects (repo_dir dangling) ''c0'' = None \<and>
   log dangling = Some (Inr [LogCommit ''c1'' ''tip'' 0 [''a.txt'']])"
proof -
  have s: "strip ''c1'' = ''c1''"
    by code_simp
  have tip: "get_last_commit dangling = Some ''c1''"
    by (simp add: get_last_commit_def dangling_def s)
  have o0: "objects (repo_dir dangling) ''c0'' = None"
    by (simp add: dangling_def)
  let ?data = "\<lparr>message = ''tip'', timestamp = 0, parent = Some ''c0'',
                 files = [\<lparr>path = ''a.txt'', hash = ''b1''\<rparr>]\<rparr>"
  have "log_walk (objects (repo_dir dangling)) (Some ''c1'') [] =
          log_walk (objects (repo_dir dangling)) (parent ?data)
            ([] @ [LogCommit ''c1'' (message ?data) (timestamp ?data) (map path (files ?data))])"
    by (rule log_walk_commit) (simp_all add: dangling_def)
  also have "\<dots> = log_walk (objects (repo_dir dangling)) (Some ''c0'') [LogCommit ''c1'' ''tip'' 0 [''a.txt'']]"
    by simp
  also have "\<dots> = Some (Inr [LogCommit ''c1'' ''tip'' 0 [''a.txt'']])"
    by (rule log_walk_missing) (simp_all add: o0)
  finally show ?thesis
    by (simp add: log_def tip o0)
qed

subsection \<open>branch\<close>




subsection \<open>Branch tips and diff without commits\<close>




subsection \<open>The digest of a commit\<close>

text \<open>C1 (the code departs from the claim). Line 140 hashes the message alone. In the
  script \<open>second_commit\<close> two commits are created with the message \<open>first\<close>: they
  differ in parent and in files, both are stored under the digest of the message, and
  the second replaces the first in the object store.\<close>

theorem commit_digest_of_message_only:
  "first_commit = Inr ([AddedToStagingArea 1, Committed 1 ''first''], after_first_commit) \<and>
   second_commit =
     Inr ([AddedToStagingArea 1, Committed 1 ''first'', AddedToStagingArea 1, Committed 1 ''first''],
          after_second_commit) \<and>
   get_last_commit after_first_commit = Some ''sha256:first'' \<and>
   get_last_commit after_second_commit = Some ''sha256:first'' \<and>
   load_commit (repo_dir after_first_commit) ''sha256:first'' =
     Inr \<lparr>message = ''first'', timestamp = 0, parent = Some [],
          files = [\<lparr>path = ''notes.txt'', hash = ''sha256:first''\<rparr>]\<rparr> \<and>
   load_commit (repo_dir after_second_commit) ''sha256:first'' =
     Inr \<lparr>message = ''first'', timestamp = 0, parent = Some ''sha256:first'',
          files = [\<lparr>path = ''todo.txt'', hash = ''sha256:x''\<rparr>]\<rparr>"
  by (simp add: first_commit_eq second_commit_eq get_last_commit_def load_commit_def strip_tag
      after_first_commit_def after_second_commit_def)

subsection \<open>The history walk after a repeated message\<close>

text \<open>C2 (the code departs from the claim). After the script \<open>second_commit\<close> the tip of
  \<open>main\<close> is a commit whose parent is its own digest, and \<open>log\<close> does not return: it
  visits the same digest again and again.\<close>

theorem log_loops_on_repeated_message:
  "second_commit =
     Inr ([AddedToStagingArea 1, Committed 1 ''first'', AddedToStagingArea 1, Committed 1 ''first''],
          after_second_commit) \<and>
   log after_second_commit = None"
proof -
  have tip: "get_last_commit after_second_commit = Some ''sha256:first''"
    by (simp add: get_last_commit_def after_second_commit_def strip_tag)
  have "log_walk (objects (repo_dir after_second_commit)) (Some ''sha256:first'') [] = None"
    by (rule log_walk_loop
          [where data = "\<lparr>message = ''first'', timestamp = 0, parent = Some ''sha256:first'',
                           files = [\<lparr>path = ''todo.txt'', hash = ''sha256:x''\<rparr>]\<rparr>"])
       (simp_all add: after_second_commit_def)
  then show ?thesis
    by (simp add: second_commit_eq log_def tip)
qed

end
